theory Spec2Isabelle
  imports Main
begin

section \<open>The shoti URL service: data model\<close>

text \<open>
  The repository holds several near-identical variants of one HTTP service over a table
  \<^verbatim>\<open>urls (id UUID PRIMARY KEY, url TEXT NOT NULL)\<close>. The handlers embedded here are
  \<^verbatim>\<open>addURL\<close>, \<^verbatim>\<open>getURLs\<close>, \<^verbatim>\<open>clearURLs\<close> and \<^verbatim>\<open>fetchAndInsertURLs\<close> of
  \<^verbatim>\<open>src/main.go\<close> (first variant) and \<^verbatim>\<open>getRandomURL\<close>, \<^verbatim>\<open>getVideoInfo\<close> and
  \<^verbatim>\<open>getVideoData\<close> of the first variant of \<^verbatim>\<open>src/unnamed/part_000\<close> (the one whose
  \<^verbatim>\<open>VideoInfo\<close> carries \<^verbatim>\<open>Code\<close>, \<^verbatim>\<open>Msg\<close> and \<^verbatim>\<open>Data\<close>).

  A Go \<^verbatim>\<open>error\<close> is represented by its \<^verbatim>\<open>Error()\<close> text. Go's \<^verbatim>\<open>int\<close> fields are only
  decoded, compared with zero and printed, never computed with, so they are \<^typ>\<open>int\<close>.
  The structs share field names (\<^verbatim>\<open>ID\<close>, \<^verbatim>\<open>Title\<close>, \<^verbatim>\<open>Cover\<close>, \<^verbatim>\<open>Code\<close>, ...), so
  the fields of every struct but \<^verbatim>\<open>URL\<close> carry a prefix: \<open>vi_\<close> for \<^verbatim>\<open>VideoInfo\<close>,
  \<open>d_\<close>, \<open>m_\<close> and \<open>a_\<close> for its \<^verbatim>\<open>Data\<close>, \<^verbatim>\<open>Music\<close> and \<^verbatim>\<open>Author\<close>, \<open>r_\<close>,
  \<open>rd_\<close> and \<open>u_\<close> for \<^verbatim>\<open>VideoDataResponse\<close>, its \<^verbatim>\<open>Data\<close> and its \<^verbatim>\<open>User\<close>.
\<close>

type_synonym err = string

record URL =
  ID :: string
  URL :: string

record VideoInfo_Music =
  m_ID :: string
  m_Title :: string
  m_Play :: string
  m_Cover :: string

record VideoInfo_Author =
  a_ID :: string
  a_UniqueID :: string
  a_Nickname :: string
  a_Avatar :: string

record VideoInfo_Data =
  d_ID :: string
  d_Region :: string
  d_Title :: string
  d_Cover :: string
  d_AI_Dynamic_Cover :: string
  d_Origin_Cover :: string
  d_Duration :: int
  d_Play :: string
  d_WMPlay :: string
  d_Size :: int
  d_WMSize :: int
  d_Music :: VideoInfo_Music
  d_PlayCount :: int
  d_DiggCount :: int
  d_CommentCount :: int
  d_ShareCount :: int
  d_DownloadCount :: int
  d_CollectCount :: int
  d_CreateTime :: int
  d_Author :: VideoInfo_Author

record VideoInfo =
  vi_Code :: int
  vi_Msg :: string
  vi_Data :: VideoInfo_Data

record VideoDataResponse_User =
  u_Username :: string
  u_Nickname :: string
  u_UserID :: string

record VideoDataResponse_Data =
  rd_Region :: string
  rd_URL :: string
  rd_Cover :: string
  rd_Title :: string
  rd_Duration :: string
  rd_User :: VideoDataResponse_User

record VideoDataResponse =
  r_Code :: int
  r_Msg :: string
  r_Data :: VideoDataResponse_Data

text \<open>
  A Go slice is either \<^verbatim>\<open>nil\<close> (what \<^verbatim>\<open>var urls []URL\<close> declares) or holds elements;
  \<^verbatim>\<open>append\<close> on a nil slice allocates.
\<close>

datatype 'a slice = NilSlice | Slice "'a list"

fun append_slice :: "'a slice \<Rightarrow> 'a \<Rightarrow> 'a slice" where
  "append_slice NilSlice x = Slice [x]"
| "append_slice (Slice xs) x = Slice (xs @ [x])"

subsection \<open>JSON values and what \<^verbatim>\<open>encoding/json\<close> writes\<close>

datatype json =
    JNull
  | JString string
  | JNumber int
  | JArray "json list"
  | JObject "(string \<times> json) list"

fun field :: "string \<Rightarrow> json \<Rightarrow> json option" where
  "field k (JObject kvs) = map_of kvs k"
| "field k _ = None"

fun path :: "string list \<Rightarrow> json \<Rightarrow> json option" where
  "path [] j = Some j"
| "path (k # ks) j = (case field k j of None \<Rightarrow> None | Some j' \<Rightarrow> path ks j')"

text \<open>
  \<^verbatim>\<open>json.NewEncoder(w).Encode(v)\<close> is library code. A struct is written as an object
  keyed by the \<^verbatim>\<open>json:"..."\<close> tags, in field order; a slice as an array of its
  elements, except that a nil slice is written as \<^verbatim>\<open>null\<close>.
\<close>

definition marshal_URL :: "URL \<Rightarrow> json" where
  "marshal_URL url = JObject [(''id'', JString (ID url)), (''url'', JString (URL url))]"

fun marshal_URLs :: "URL slice \<Rightarrow> json" where
  "marshal_URLs NilSlice = JNull"
| "marshal_URLs (Slice xs) = JArray (map marshal_URL xs)"

definition marshal_VideoDataResponse :: "VideoDataResponse \<Rightarrow> json" where
  "marshal_VideoDataResponse v =
     JObject
       [(''code'', JNumber (r_Code v)),
        (''msg'', JString (r_Msg v)),
        (''data'',
           JObject
             [(''region'', JString (rd_Region (r_Data v))),
              (''url'', JString (rd_URL (r_Data v))),
              (''cover'', JString (rd_Cover (r_Data v))),
              (''title'', JString (rd_Title (r_Data v))),
              (''duration'', JString (rd_Duration (r_Data v))),
              (''user'',
                 JObject
                   [(''username'', JString (u_Username (rd_User (r_Data v)))),
                    (''nickname'', JString (u_Nickname (rd_User (r_Data v)))),
                    (''userID'', JString (u_UserID (rd_User (r_Data v))))])])]"

subsection \<open>Decimal rendering: the verb \<^verbatim>\<open>%d\<close>\<close>

definition digit :: "nat \<Rightarrow> char" where
  "digit n = ''0123456789'' ! (n mod 10)"

fun dec :: "nat \<Rightarrow> string" where
  "dec n = (if n < 10 then [digit n] else dec (n div 10) @ [digit (n mod 10)])"

declare dec.simps [simp del]

definition itoa :: "int \<Rightarrow> string" where
  "itoa i = (if i < 0 then CHR ''-'' # dec (nat (- i)) else dec (nat i))"

text \<open>Reading a digit string back, to say what "decimal rendering" means.\<close>

definition digit_val :: "char \<Rightarrow> nat" where
  "digit_val c = of_char c - 48"

definition dec_val :: "string \<Rightarrow> nat" where
  "dec_val ds = foldl (\<lambda>a c. 10 * a + digit_val c) 0 ds"

definition atoi :: "string \<Rightarrow> int" where
  "atoi cs = (case cs of
                [] \<Rightarrow> 0
              | c # ds \<Rightarrow> if c = CHR ''-'' then - int (dec_val ds) else int (dec_val cs))"

section \<open>Requests, responses and the world outside the handlers\<close>

text \<open>
  \<^verbatim>\<open>r.Header\<close> is a \<^verbatim>\<open>map[string][]string\<close>; a missing key reads as the empty list.
  \<^verbatim>\<open>Header.Get\<close> returns the first value of the key, or the empty string.
\<close>

record request =
  Method :: string
  Header :: "string \<Rightarrow> string list"
  Body :: string

definition Header_Get :: "(string \<Rightarrow> string list) \<Rightarrow> string \<Rightarrow> string" where
  "Header_Get h key = (case h key of [] \<Rightarrow> [] | v # _ \<Rightarrow> v)"

datatype payload = Text string | Json json

record response =
  Status :: nat
  Headers :: "(string \<times> string) list"
  Payload :: payload

abbreviation StatusOK :: nat where "StatusOK \<equiv> 200"
abbreviation StatusCreated :: nat where "StatusCreated \<equiv> 201"
abbreviation StatusBadRequest :: nat where "StatusBadRequest \<equiv> 400"
abbreviation StatusMethodNotAllowed :: nat where "StatusMethodNotAllowed \<equiv> 405"
abbreviation StatusInternalServerError :: nat where "StatusInternalServerError \<equiv> 500"

text \<open>
  \<^verbatim>\<open>http.Error(w, msg, code)\<close> sets the two headers below, writes the status and prints
  the message followed by a newline. \<^verbatim>\<open>Headers\<close> lists what the handler (or
  \<^verbatim>\<open>http.Error\<close>) sets itself; the server's content sniffing is not modelled.
\<close>

definition http_Error :: "string \<Rightarrow> nat \<Rightarrow> response" where
  "http_Error msg code =
     \<lparr>Status = code,
      Headers = [(''Content-Type'', ''text/plain; charset=utf-8''),
                 (''X-Content-Type-Options'', ''nosniff'')],
      Payload = Text (msg @ [CHR 0x0A])\<rparr>"

text \<open>
  What a handler does to the outside is recorded in a trace: the SQL statements it sends
  (with their arguments) and the outbound HTTP requests (with the headers it sets).
\<close>

datatype effect =
    Exec string "string list"
  | Query string
  | HttpGet string "(string \<times> string) list"

fun is_HttpGet :: "effect \<Rightarrow> bool" where
  "is_HttpGet (HttpGet _ _) = True"
| "is_HttpGet _ = False"

record world =
  urls :: "URL list"
  trace :: "effect list"

text \<open>
  The answers of everything that is not code of the repository, during one request:
  whether a statement sent to the database fails (\<^verbatim>\<open>db_error\<close>) and whether scanning
  the i-th row does, the identifiers \<^verbatim>\<open>uuid.New()\<close> draws, the number behind
  \<^verbatim>\<open>rand.Intn\<close>, what the JSON decoder makes of a request body that holds more than
  white space, whether \<^verbatim>\<open>http.NewRequest\<close> accepts a URL, and what the two remote
  services answer.
\<close>

datatype reply = TransportError err | DecodeError err | Decoded VideoInfo

datatype list_reply = GetError err | ReadError err | ParseError err | Listed "string list"

record env =
  db_error :: "effect \<Rightarrow> err option"
  scan_error :: "nat \<Rightarrow> err option"
  uuid_New :: "nat \<Rightarrow> string"
  rand_src :: nat
  json_value :: "string \<Rightarrow> err + URL"
  http_NewRequest :: "string \<Rightarrow> err option"
  client_Do :: "string \<Rightarrow> reply"
  list_Get :: list_reply

subsection \<open>Library calls\<close>

text \<open>
  \<^verbatim>\<open>json.NewDecoder(r.Body).Decode(&url)\<close>: the decoder skips white space (space, tab,
  carriage return, newline); when the body ends before any other byte it returns
  \<^verbatim>\<open>io.EOF\<close>, whose text is \<^verbatim>\<open>EOF\<close>. On any other body it returns what the
  environment's \<^verbatim>\<open>json_value\<close> says: an error, or the \<^verbatim>\<open>URL\<close> struct filled
  in from its zero value.
\<close>

definition isSpace :: "char \<Rightarrow> bool" where
  "isSpace c = (c = CHR '' '' \<or> c = CHR 0x09 \<or> c = CHR 0x0D \<or> c = CHR 0x0A)"

definition json_Decode :: "env \<Rightarrow> string \<Rightarrow> err + URL" where
  "json_Decode e b = (if list_all isSpace b then Inl ''EOF'' else json_value e b)"

text \<open>
  \<^verbatim>\<open>rand.Intn(n)\<close> returns a number in \<^verbatim>\<open>[0, n)\<close> and panics when \<^verbatim>\<open>n <= 0\<close>
  (\<^const>\<open>None\<close> here).
\<close>

definition rand_Intn :: "env \<Rightarrow> nat \<Rightarrow> nat option" where
  "rand_Intn e n = (if n = 0 then None else Some (rand_src e mod n))"

subsection \<open>The table \<^verbatim>\<open>urls\<close>\<close>

text \<open>
  The rows are kept in the order the server returns them. Every statement is logged,
  then fails if the environment says so. \<^verbatim>\<open>id\<close> is the primary key: an insert under
  an identifier already present is refused. \<^verbatim>\<open>url TEXT NOT NULL\<close> admits every Go
  string, the empty one included.
\<close>

definition insert_sql :: string where
  "insert_sql = ''INSERT INTO urls (id, url) VALUES ($1, $2)''"

definition db_Exec_insert :: "env \<Rightarrow> string \<Rightarrow> string \<Rightarrow> world \<Rightarrow> err option \<times> world" where
  "db_Exec_insert e i u s =
     (let q = Exec insert_sql [i, u];
          s1 = s\<lparr>trace := trace s @ [q]\<rparr>
      in case db_error e q of
           Some x \<Rightarrow> (Some x, s1)
         | None \<Rightarrow>
             if i \<in> set (map ID (urls s))
             then (Some ''pq: duplicate key value violates unique constraint'', s1)
             else (None, s1\<lparr>urls := urls s @ [\<lparr>ID = i, URL = u\<rparr>]\<rparr>))"

definition db_Exec_delete :: "env \<Rightarrow> world \<Rightarrow> err option \<times> world" where
  "db_Exec_delete e s =
     (let q = Exec ''DELETE FROM urls'' [];
          s1 = s\<lparr>trace := trace s @ [q]\<rparr>
      in case db_error e q of
           Some x \<Rightarrow> (Some x, s1)
         | None \<Rightarrow> (None, s1\<lparr>urls := []\<rparr>))"

definition db_Query_all :: "env \<Rightarrow> world \<Rightarrow> (err + URL list) \<times> world" where
  "db_Query_all e s =
     (let q = Query ''SELECT id, url FROM urls'';
          s1 = s\<lparr>trace := trace s @ [q]\<rparr>
      in case db_error e q of
           Some x \<Rightarrow> (Inl x, s1)
         | None \<Rightarrow> (Inr (urls s), s1))"

definition db_QueryRow_count :: "env \<Rightarrow> world \<Rightarrow> (err + nat) \<times> world" where
  "db_QueryRow_count e s =
     (let q = Query ''SELECT COUNT(*) FROM urls'';
          s1 = s\<lparr>trace := trace s @ [q]\<rparr>
      in case db_error e q of
           Some x \<Rightarrow> (Inl x, s1)
         | None \<Rightarrow> (Inr (length (urls s)), s1))"

text \<open>
  \<^verbatim>\<open>SELECT url FROM urls LIMIT 1 OFFSET k\<close>, scanned by \<^verbatim>\<open>QueryRow(...).Scan\<close>:
  the row after the first \<open>k\<close>, or \<^verbatim>\<open>sql.ErrNoRows\<close> when there is none.
\<close>

definition db_QueryRow_offset :: "env \<Rightarrow> nat \<Rightarrow> world \<Rightarrow> (err + string) \<times> world" where
  "db_QueryRow_offset e k s =
     (let q = Query (''SELECT url FROM urls LIMIT 1 OFFSET '' @ itoa (int k));
          s1 = s\<lparr>trace := trace s @ [q]\<rparr>
      in case db_error e q of
           Some x \<Rightarrow> (Inl x, s1)
         | None \<Rightarrow>
             (case drop k (urls s) of
                [] \<Rightarrow> (Inl ''sql: no rows in result set'', s1)
              | row # _ \<Rightarrow> (Inr (URL row), s1)))"

section \<open>The handlers\<close>

subsection \<open>\<^verbatim>\<open>addURL\<close>\<close>

definition addURL :: "env \<Rightarrow> request \<Rightarrow> world \<Rightarrow> response \<times> world" where
  "addURL e r s =
     (if Header_Get (Header r) ''Content-Type'' \<noteq> ''application/json''
      then (http_Error ''Content-Type must be application/json'' StatusBadRequest, s)
      else
        case json_Decode e (Body r) of
          Inl x \<Rightarrow>
            if x = ''EOF''
            then (http_Error ''Empty request body'' StatusBadRequest, s)
            else (http_Error ''Invalid request payload'' StatusBadRequest, s)
        | Inr decoded \<Rightarrow>
            (let url = decoded\<lparr>ID := uuid_New e 0\<rparr> in
               (case db_Exec_insert e (ID url) (URL url) s of
                  (Some x, s1) \<Rightarrow>
                    (http_Error ''Error adding URL to database'' StatusInternalServerError, s1)
                | (None, s1) \<Rightarrow>
                    (\<lparr>Status = StatusCreated, Headers = [],
                      Payload = Json (marshal_URL url)\<rparr>, s1))))"

subsection \<open>\<^verbatim>\<open>getURLs\<close>\<close>

fun scan_rows :: "env \<Rightarrow> nat \<Rightarrow> URL list \<Rightarrow> URL slice \<Rightarrow> err + URL slice" where
  "scan_rows e i [] acc = Inr acc"
| "scan_rows e i (row # rows) acc =
     (case scan_error e i of
        Some x \<Rightarrow> Inl x
      | None \<Rightarrow> scan_rows e (Suc i) rows (append_slice acc row))"

definition getURLs :: "env \<Rightarrow> request \<Rightarrow> world \<Rightarrow> response \<times> world" where
  "getURLs e r s =
     (case db_Query_all e s of
        (Inl x, s1) \<Rightarrow>
          (http_Error ''Error retrieving URLs from database'' StatusInternalServerError, s1)
      | (Inr rows, s1) \<Rightarrow>
          (case scan_rows e 0 rows NilSlice of
             Inl x \<Rightarrow>
               (http_Error ''Error scanning URL from database'' StatusInternalServerError, s1)
           | Inr found \<Rightarrow>
               (\<lparr>Status = StatusOK,
                 Headers = [(''Content-Type'', ''application/json'')],
                 Payload = Json (marshal_URLs found)\<rparr>, s1)))"

subsection \<open>\<^verbatim>\<open>clearURLs\<close>\<close>

definition clearURLs :: "env \<Rightarrow> request \<Rightarrow> world \<Rightarrow> response \<times> world" where
  "clearURLs e r s =
     (if Method r \<noteq> ''GET''
      then (http_Error ''Invalid method. Only GET is allowed'' StatusMethodNotAllowed, s)
      else
        case db_Exec_delete e s of
          (Some x, s1) \<Rightarrow>
            (http_Error ''Error clearing URLs from database'' StatusInternalServerError, s1)
        | (None, s1) \<Rightarrow>
            (\<lparr>Status = StatusOK, Headers = [],
              Payload = Text (''All URLs have been removed from the database.'' @ [CHR 0x0A])\<rparr>,
             s1))"

subsection \<open>\<^verbatim>\<open>fetchAndInsertURLs\<close>\<close>

definition list_endpoint :: string where
  "list_endpoint = ''https://shoti-server-production.up.railway.app/list''"

fun insert_each :: "env \<Rightarrow> nat \<Rightarrow> string list \<Rightarrow> world \<Rightarrow> err option \<times> world" where
  "insert_each e i [] s = (None, s)"
| "insert_each e i (u # us) s =
     (case db_Exec_insert e (uuid_New e i) u s of
        (Some x, s1) \<Rightarrow> (Some x, s1)
      | (None, s1) \<Rightarrow> insert_each e (Suc i) us s1)"

definition fetchAndInsertURLs :: "env \<Rightarrow> request \<Rightarrow> world \<Rightarrow> response \<times> world" where
  "fetchAndInsertURLs e r s =
     (let s0 = s\<lparr>trace := trace s @ [HttpGet list_endpoint []]\<rparr> in
      case list_Get e of
        GetError x \<Rightarrow>
          (http_Error ''Error fetching URLs from external API'' StatusInternalServerError, s0)
      | ReadError x \<Rightarrow>
          (http_Error ''Error reading response body'' StatusInternalServerError, s0)
      | ParseError x \<Rightarrow>
          (http_Error ''Error parsing response JSON'' StatusInternalServerError, s0)
      | Listed us \<Rightarrow>
          (case insert_each e 0 us s0 of
             (Some x, s1) \<Rightarrow>
               (http_Error ''Error inserting URL into database'' StatusInternalServerError, s1)
           | (None, s1) \<Rightarrow>
               (\<lparr>Status = StatusOK, Headers = [],
                 Payload = Text (''URLs fetched and added to the database.'' @ [CHR 0x0A])\<rparr>,
                s1)))"

subsection \<open>\<^verbatim>\<open>getRandomURL\<close>\<close>

text \<open>The offset of the second query: \<^verbatim>\<open>randomIndex-1\<close> for a draw \<open>k\<close> of \<^verbatim>\<open>rand.Intn(count)\<close>.\<close>

definition offset_of :: "nat \<Rightarrow> nat" where
  "offset_of k = (let randomIndex = k + 1 in randomIndex - 1)"

definition getRandomURL :: "env \<Rightarrow> world \<Rightarrow> (err + string) \<times> world" where
  "getRandomURL e s =
     (case db_QueryRow_count e s of
        (Inl x, s1) \<Rightarrow> (Inl (''error getting URL count: '' @ x), s1)
      | (Inr count, s1) \<Rightarrow>
          if count = 0 then (Inl ''no URLs found in the database'', s1)
          else
            (case rand_Intn e count of
               None \<Rightarrow> (Inl ''panic: invalid argument to Intn'', s1)
             | Some k \<Rightarrow>
                 (case db_QueryRow_offset e (offset_of k) s1 of
                    (Inl x, s2) \<Rightarrow> (Inl (''error retrieving random URL: '' @ x), s2)
                  | (Inr url, s2) \<Rightarrow> (Inr url, s2))))"

subsection \<open>\<^verbatim>\<open>getVideoInfo\<close>\<close>

definition user_agent :: string where
  "user_agent = ''Mozilla/5.0 (Windows NT 10.0; Win64; x64) AppleWebKit/537.36 (KHTML, like Gecko) Chrome/91.0.4472.124 Safari/537.36''"

definition getVideoInfo :: "env \<Rightarrow> string \<Rightarrow> world \<Rightarrow> (err + VideoInfo) \<times> world" where
  "getVideoInfo e url s =
     (let target = ''https://tikwm.com/api?url='' @ url in
        (case http_NewRequest e target of
           Some x \<Rightarrow> (Inl (''error creating request: '' @ x), s)
         | None \<Rightarrow>
             (let s1 = s\<lparr>trace := trace s @ [HttpGet target [(''User-Agent'', user_agent)]]\<rparr> in
                (case client_Do e target of
                   TransportError x \<Rightarrow> (Inl (''error fetching video info: '' @ x), s1)
                 | DecodeError x \<Rightarrow> (Inl (''error decoding video info: '' @ x), s1)
                 | Decoded videoInfo \<Rightarrow>
                     (if vi_Code videoInfo \<noteq> 0
                      then (Inl (''API error: '' @ vi_Msg videoInfo), s1)
                      else (Inr videoInfo, s1))))))"

subsection \<open>\<^verbatim>\<open>getVideoData\<close>\<close>

definition responseData :: "VideoInfo \<Rightarrow> VideoDataResponse" where
  "responseData videoInfo =
     \<lparr>r_Code = 200,
      r_Msg = ''success'',
      r_Data =
        \<lparr>rd_Region = d_Region (vi_Data videoInfo),
         rd_URL = ''https://www.tikwm.com/video/media/hdplay/'' @ d_ID (vi_Data videoInfo) @ ''.mp4'',
         rd_Cover = d_Cover (vi_Data videoInfo),
         rd_Title = d_Title (vi_Data videoInfo),
         rd_Duration = itoa (d_Duration (vi_Data videoInfo)) @ ''s'',
         rd_User =
           \<lparr>u_Username = a_UniqueID (d_Author (vi_Data videoInfo)),
            u_Nickname = a_Nickname (d_Author (vi_Data videoInfo)),
            u_UserID = a_ID (d_Author (vi_Data videoInfo))\<rparr>\<rparr>\<rparr>"

definition getVideoData :: "env \<Rightarrow> request \<Rightarrow> world \<Rightarrow> response \<times> world" where
  "getVideoData e r s =
     (case getRandomURL e s of
        (Inl x, s1) \<Rightarrow>
          (http_Error (''Error fetching random URL: '' @ x) StatusInternalServerError, s1)
      | (Inr randomURL, s1) \<Rightarrow>
          (case getVideoInfo e randomURL s1 of
             (Inl x, s2) \<Rightarrow>
               (http_Error (''Error fetching video: '' @ x) StatusInternalServerError, s2)
           | (Inr videoInfo, s2) \<Rightarrow>
               (\<lparr>Status = StatusOK,
                 Headers = [(''Content-Type'', ''application/json'')],
                 Payload = Json (marshal_VideoDataResponse (responseData videoInfo))\<rparr>, s2)))"

subsection \<open>Serving a sequence of requests\<close>

text \<open>
  The routes the variants register: \<^verbatim>\<open>/new\<close>, \<^verbatim>\<open>/list\<close> (\<^verbatim>\<open>/get\<close> in
  \<^verbatim>\<open>src/main.go\<close>), \<^verbatim>\<open>/clr\<close>, \<^verbatim>\<open>/get\<close> of the data-fetching variant, and
  \<^verbatim>\<open>/fetch\<close>. \<^verbatim>\<open>http.HandleFunc\<close> dispatches on the path alone.
\<close>

datatype route = Route_new | Route_list | Route_clr | Route_get | Route_fetch

fun dispatch :: "route \<Rightarrow> env \<Rightarrow> request \<Rightarrow> world \<Rightarrow> response \<times> world" where
  "dispatch Route_new = addURL"
| "dispatch Route_list = getURLs"
| "dispatch Route_clr = clearURLs"
| "dispatch Route_get = getVideoData"
| "dispatch Route_fetch = fetchAndInsertURLs"

fun serve :: "(route \<times> env \<times> request) list \<Rightarrow> world \<Rightarrow> world" where
  "serve [] s = s"
| "serve ((p, e, r) # rest) s = serve rest (snd (dispatch p e r s))"

text \<open>The url strings a request offers to the store.\<close>

fun offered :: "route \<times> env \<times> request \<Rightarrow> string list" where
  "offered (Route_new, e, r) =
     (if Header_Get (Header r) ''Content-Type'' \<noteq> ''application/json'' then []
      else case json_Decode e (Body r) of Inl x \<Rightarrow> [] | Inr decoded \<Rightarrow> [URL decoded])"
| "offered (Route_fetch, e, r) =
     (case list_Get e of Listed us \<Rightarrow> us | _ \<Rightarrow> [])"
| "offered (_, e, r) = []"

text \<open>A field of a JSON response body, by its path: \<^verbatim>\<open>data.url\<close> is \<open>[data, url]\<close>.\<close>

definition payload_path :: "string list \<Rightarrow> response \<Rightarrow> json option" where
  "payload_path ks resp = (case Payload resp of Json j \<Rightarrow> path ks j | Text t \<Rightarrow> None)"

section \<open>Sample requests, stores and environments\<close>

text \<open>
  Concrete inputs on which the theorems below are instantiated. \<^verbatim>\<open>sample_json_value\<close>
  answers as Go's decoder does on the three bodies the instances use (an object with a
  url, an object with an empty url, and an object cut off after the key, on which the
  decoder returns \<^verbatim>\<open>io.ErrUnexpectedEOF\<close>) and rejects every other body.
  \<^verbatim>\<open>sample_env\<close> is an environment in which nothing fails and the remote service
  answers \<^verbatim>\<open>sample_info\<close>.
\<close>

definition json_header :: "string \<Rightarrow> string list" where
  "json_header key = (if key = ''Content-Type'' then [''application/json''] else [])"

definition new_request :: "string \<Rightarrow> string \<Rightarrow> request" where
  "new_request m b = \<lparr>Method = m, Header = json_header, Body = b\<rparr>"

definition bare_request :: "string \<Rightarrow> request" where
  "bare_request m = \<lparr>Method = m, Header = (\<lambda>key. []), Body = []\<rparr>"

definition empty_store :: world where
  "empty_store = \<lparr>urls = [], trace = []\<rparr>"

definition sample_json_value :: "string \<Rightarrow> err + URL" where
  "sample_json_value b =
     (if b = ''{\"url\":\"https://vt.tiktok.com/ZS1/\"}''
      then Inr \<lparr>ID = [], URL = ''https://vt.tiktok.com/ZS1/''\<rparr>
      else if b = ''{\"url\":\"\"}'' then Inr \<lparr>ID = [], URL = []\<rparr>
      else if b = ''{\"url\":'' then Inl ''unexpected EOF''
      else Inl ''json: body not covered by the sample'')"

definition sample_info :: VideoInfo where
  "sample_info =
     \<lparr>vi_Code = 0, vi_Msg = ''success'',
      vi_Data =
        \<lparr>d_ID = ''abc'', d_Region = ''PH'', d_Title = ''T'', d_Cover = ''C'',
         d_AI_Dynamic_Cover = [], d_Origin_Cover = [], d_Duration = 30,
         d_Play = [], d_WMPlay = [], d_Size = 0, d_WMSize = 0,
         d_Music = \<lparr>m_ID = [], m_Title = [], m_Play = [], m_Cover = []\<rparr>,
         d_PlayCount = 0, d_DiggCount = 0, d_CommentCount = 0, d_ShareCount = 0,
         d_DownloadCount = 0, d_CollectCount = 0, d_CreateTime = 0,
         d_Author = \<lparr>a_ID = ''uid1'', a_UniqueID = ''u1'', a_Nickname = ''N'', a_Avatar = []\<rparr>\<rparr>\<rparr>"

definition sample_uuids :: "string list" where
  "sample_uuids =
     [''7c9e6679-7425-40de-944b-e07fc1f90ae7'',
      ''16fd2706-8baf-433b-82eb-8c7fada847da'',
      ''886313e1-3b8a-5372-9b90-0c9aee199e5d'']"

definition sample_env :: env where
  "sample_env =
     \<lparr>db_error = (\<lambda>q. None),
      scan_error = (\<lambda>i. None),
      uuid_New = (\<lambda>i. sample_uuids ! (i mod 3)),
      rand_src = 7,
      json_value = sample_json_value,
      http_NewRequest = (\<lambda>u. None),
      client_Do = (\<lambda>u. Decoded sample_info),
      list_Get = Listed []\<rparr>"

definition one_url_store :: world where
  "one_url_store = \<lparr>urls = [\<lparr>ID = ''i1'', URL = ''https://vt.tiktok.com/ZS1/''\<rparr>], trace = []\<rparr>"

definition three_url_store :: world where
  "three_url_store =
     \<lparr>urls = [\<lparr>ID = ''i1'', URL = ''https://vt.tiktok.com/ZS1/''\<rparr>,
              \<lparr>ID = ''i2'', URL = ''https://vt.tiktok.com/ZS2/''\<rparr>,
              \<lparr>ID = ''i3'', URL = ''https://vt.tiktok.com/ZS3/''\<rparr>],
      trace = []\<rparr>"

definition plain_request :: "string \<Rightarrow> request" where
  "plain_request b =
     \<lparr>Method = ''POST'',
      Header = (\<lambda>key. if key = ''Content-Type'' then [''text/plain''] else []),
      Body = b\<rparr>"

definition failing_info :: VideoInfo where
  "failing_info = sample_info\<lparr>vi_Code := - 1, vi_Msg := ''Url parsing is failed! Please check url.''\<rparr>"

definition failing_env :: env where
  "failing_env = sample_env\<lparr>client_Do := (\<lambda>u. Decoded failing_info)\<rparr>"

definition two_requests :: "(route \<times> env \<times> request) list" where
  "two_requests =
     [(Route_new, sample_env, new_request ''POST'' ''{\"url\":\"https://vt.tiktok.com/ZS1/\"}''),
      (Route_list, sample_env, bare_request ''GET'')]"

section \<open>Properties\<close>

subsection \<open>Decimal rendering\<close>

lemma ten_cases:
  "(k::nat) < 10 \<Longrightarrow>
     k = 0 \<or> k = 1 \<or> k = 2 \<or> k = 3 \<or> k = 4 \<or> k = 5 \<or> k = 6 \<or> k = 7 \<or> k = 8 \<or> k = 9"
  by arith

lemma digit_val_digit: "k < 10 \<Longrightarrow> digit_val (digit k) = k"
  using ten_cases [of k] by (auto simp: digit_def digit_val_def)

lemma digit_not_minus: "digit k \<noteq> CHR ''-''"
  using ten_cases [of "k mod 10"] by (auto simp: digit_def)

lemma dec_val_snoc: "dec_val (ds @ [c]) = 10 * dec_val ds + digit_val c"
  by (simp add: dec_val_def)

lemma dec_val_dec: "dec_val (dec n) = n"
proof (induction n rule: dec.induct)
  case (1 n)
  show ?case
  proof (cases "n < 10")
    case True
    then show ?thesis
      by (simp add: dec.simps [of n] dec_val_def digit_val_digit)
  next
    case False
    with 1 have "dec_val (dec (n div 10)) = n div 10" by simp
    moreover have "digit_val (digit (n mod 10)) = n mod 10"
      by (simp add: digit_val_digit)
    ultimately show ?thesis
      using False by (simp add: dec.simps [of n] dec_val_snoc)
  qed
qed

lemma dec_head: "\<exists>c cs. dec n = c # cs \<and> c \<noteq> CHR ''-''"
proof (induction n rule: dec.induct)
  case (1 n)
  show ?case
  proof (cases "n < 10")
    case True
    then show ?thesis
      by (simp add: dec.simps [of n] digit_not_minus)
  next
    case False
    with 1 obtain c cs where "dec (n div 10) = c # cs" "c \<noteq> CHR ''-''" by blast
    with False show ?thesis
      by (simp add: dec.simps [of n])
  qed
qed

lemma atoi_itoa: "atoi (itoa i) = i"
proof (cases "i < 0")
  case True
  then show ?thesis
    by (simp add: atoi_def itoa_def dec_val_dec)
next
  case False
  obtain c cs where d: "dec (nat i) = c # cs" "c \<noteq> CHR ''-''"
    using dec_head by blast
  have "dec_val (dec (nat i)) = nat i" by (rule dec_val_dec)
  with d False show ?thesis
    by (simp add: atoi_def itoa_def)
qed

subsection \<open>The normalized response of \<^verbatim>\<open>getVideoData\<close>\<close>

lemma responseData_paths:
  "path [''data'', ''url''] (marshal_VideoDataResponse (responseData v)) =
     Some (JString (''https://www.tikwm.com/video/media/hdplay/'' @ d_ID (vi_Data v) @ ''.mp4''))"
  "path [''data'', ''duration''] (marshal_VideoDataResponse (responseData v)) =
     Some (JString (itoa (d_Duration (vi_Data v)) @ ''s''))"
  "path [''data'', ''region''] (marshal_VideoDataResponse (responseData v)) =
     Some (JString (d_Region (vi_Data v)))"
  "path [''data'', ''cover''] (marshal_VideoDataResponse (responseData v)) =
     Some (JString (d_Cover (vi_Data v)))"
  "path [''data'', ''title''] (marshal_VideoDataResponse (responseData v)) =
     Some (JString (d_Title (vi_Data v)))"
  "path [''data'', ''user'', ''username''] (marshal_VideoDataResponse (responseData v)) =
     Some (JString (a_UniqueID (d_Author (vi_Data v))))"
  "path [''data'', ''user'', ''nickname''] (marshal_VideoDataResponse (responseData v)) =
     Some (JString (a_Nickname (d_Author (vi_Data v))))"
  "path [''data'', ''user'', ''userID''] (marshal_VideoDataResponse (responseData v)) =
     Some (JString (a_ID (d_Author (vi_Data v))))"
  by (simp_all add: marshal_VideoDataResponse_def responseData_def)

lemma getVideoData_success:
  assumes "getRandomURL e s = (Inr u, s1)" and "getVideoInfo e u s1 = (Inr v, s2)"
  shows "getVideoData e r s =
           (\<lparr>Status = StatusOK, Headers = [(''Content-Type'', ''application/json'')],
             Payload = Json (marshal_VideoDataResponse (responseData v))\<rparr>, s2)"
  using assms by (simp add: getVideoData_def)

text \<open>
  C1. When the pick and the fetch succeed with a \<^verbatim>\<open>VideoInfo\<close> \<open>v\<close>, \<^verbatim>\<open>getVideoData\<close>
  answers 200 with a JSON body in which \<^verbatim>\<open>data.url\<close> is the fixed base path, the
  identifier of \<open>v\<close> and \<^verbatim>\<open>.mp4\<close>; \<^verbatim>\<open>data.duration\<close> is the decimal rendering of
  the duration (a string that reads back as that number) followed by \<^verbatim>\<open>s\<close>; and
  region, cover, title and the three author fields are copied under their new keys.
\<close>

theorem getVideoData_normalizes:
  assumes "getRandomURL e s = (Inr u, s1)" and "getVideoInfo e u s1 = (Inr v, s2)"
  shows "Status (fst (getVideoData e r s)) = StatusOK
       \<and> payload_path [''data'', ''url''] (fst (getVideoData e r s)) =
           Some (JString (''https://www.tikwm.com/video/media/hdplay/'' @ d_ID (vi_Data v) @ ''.mp4''))
       \<and> payload_path [''data'', ''duration''] (fst (getVideoData e r s)) =
           Some (JString (itoa (d_Duration (vi_Data v)) @ ''s''))
       \<and> atoi (itoa (d_Duration (vi_Data v))) = d_Duration (vi_Data v)
       \<and> payload_path [''data'', ''region''] (fst (getVideoData e r s)) =
           Some (JString (d_Region (vi_Data v)))
       \<and> payload_path [''data'', ''cover''] (fst (getVideoData e r s)) =
           Some (JString (d_Cover (vi_Data v)))
       \<and> payload_path [''data'', ''title''] (fst (getVideoData e r s)) =
           Some (JString (d_Title (vi_Data v)))
       \<and> payload_path [''data'', ''user'', ''username''] (fst (getVideoData e r s)) =
           Some (JString (a_UniqueID (d_Author (vi_Data v))))
       \<and> payload_path [''data'', ''user'', ''nickname''] (fst (getVideoData e r s)) =
           Some (JString (a_Nickname (d_Author (vi_Data v))))
       \<and> payload_path [''data'', ''user'', ''userID''] (fst (getVideoData e r s)) =
           Some (JString (a_ID (d_Author (vi_Data v))))"
  unfolding getVideoData_success [OF assms] payload_path_def
  by (simp add: responseData_paths atoi_itoa del: path.simps)

lemma sample_pick:
  "getRandomURL sample_env one_url_store =
     (Inr ''https://vt.tiktok.com/ZS1/'',
      one_url_store\<lparr>trace := [Query ''SELECT COUNT(*) FROM urls'',
                               Query ''SELECT url FROM urls LIMIT 1 OFFSET 0'']\<rparr>)"
  by (simp add: getRandomURL_def db_QueryRow_count_def db_QueryRow_offset_def rand_Intn_def
      offset_of_def sample_env_def one_url_store_def itoa_def dec.simps digit_def)

text \<open>
  The instance of the specification: a store with one URL and a remote answer with
  identifier \<^verbatim>\<open>abc\<close>, duration 30 and author handle \<^verbatim>\<open>u1\<close>.
\<close>

lemma sample_fetch:
  "getVideoInfo sample_env ''https://vt.tiktok.com/ZS1/'' w =
     (Inr sample_info,
      w\<lparr>trace := trace w @
         [HttpGet ''https://tikwm.com/api?url=https://vt.tiktok.com/ZS1/''
            [(''User-Agent'', user_agent)]]\<rparr>)"
  by (simp add: getVideoInfo_def sample_env_def sample_info_def)

theorem getVideoData_normalizes_witness:
  "getRandomURL sample_env one_url_store =
     (Inr ''https://vt.tiktok.com/ZS1/'',
      one_url_store\<lparr>trace := [Query ''SELECT COUNT(*) FROM urls'',
                               Query ''SELECT url FROM urls LIMIT 1 OFFSET 0'']\<rparr>)
   \<and> fst (getVideoInfo sample_env ''https://vt.tiktok.com/ZS1/''
              (one_url_store\<lparr>trace := [Query ''SELECT COUNT(*) FROM urls'',
                                       Query ''SELECT url FROM urls LIMIT 1 OFFSET 0'']\<rparr>)) =
       Inr sample_info
   \<and> d_ID (vi_Data sample_info) = ''abc''
   \<and> d_Duration (vi_Data sample_info) = 30
   \<and> a_UniqueID (d_Author (vi_Data sample_info)) = ''u1''
   \<and> Status (fst (getVideoData sample_env (bare_request ''GET'') one_url_store)) = StatusOK
   \<and> payload_path [''data'', ''url''] (fst (getVideoData sample_env (bare_request ''GET'') one_url_store)) =
       Some (JString ''https://www.tikwm.com/video/media/hdplay/abc.mp4'')
   \<and> payload_path [''data'', ''duration''] (fst (getVideoData sample_env (bare_request ''GET'') one_url_store)) =
       Some (JString ''30s'')
   \<and> payload_path [''data'', ''user'', ''username''] (fst (getVideoData sample_env (bare_request ''GET'') one_url_store)) =
       Some (JString ''u1'')"
  using getVideoData_normalizes [OF sample_pick sample_fetch, of "bare_request ''GET''"]
    sample_pick sample_fetch
  by (simp add: sample_info_def itoa_def dec.simps digit_def)

subsection \<open>Picking from an empty store\<close>

lemma getRandomURL_empty:
  assumes "urls s = []" and "db_error e (Query ''SELECT COUNT(*) FROM urls'') = None"
  shows "getRandomURL e s =
           (Inl ''no URLs found in the database'',
            s\<lparr>trace := trace s @ [Query ''SELECT COUNT(*) FROM urls'']\<rparr>)"
  using assms by (simp add: getRandomURL_def db_QueryRow_count_def)

lemma getRandomURL_empty_fails:
  assumes "urls s = []"
  shows "\<exists>x. getRandomURL e s = (Inl x, s\<lparr>trace := trace s @ [Query ''SELECT COUNT(*) FROM urls'']\<rparr>)"
  using assms by (cases "db_error e (Query ''SELECT COUNT(*) FROM urls'')")
    (simp_all add: getRandomURL_def db_QueryRow_count_def)

text \<open>
  C2. On a store with zero rows \<^verbatim>\<open>getVideoData\<close> answers 500 and the only thing it
  does to the outside is the count query: no outbound HTTP request is made. When the count
  query itself succeeds, \<^verbatim>\<open>getRandomURL\<close> returns the error
  \<^verbatim>\<open>no URLs found in the database\<close> and the response carries it after the prefix
  \<^verbatim>\<open>Error fetching random URL: \<close>.
\<close>

theorem getVideoData_empty_store:
  assumes "urls s = []"
  shows "Status (fst (getVideoData e r s)) = StatusInternalServerError
       \<and> snd (getVideoData e r s) = s\<lparr>trace := trace s @ [Query ''SELECT COUNT(*) FROM urls'']\<rparr>
       \<and> filter is_HttpGet (trace (snd (getVideoData e r s))) = filter is_HttpGet (trace s)
       \<and> (db_error e (Query ''SELECT COUNT(*) FROM urls'') = None \<longrightarrow>
            fst (getRandomURL e s) = Inl ''no URLs found in the database''
          \<and> fst (getVideoData e r s) =
              http_Error (''Error fetching random URL: '' @ ''no URLs found in the database'')
                StatusInternalServerError)"
proof -
  obtain x where x: "getRandomURL e s = (Inl x, s\<lparr>trace := trace s @ [Query ''SELECT COUNT(*) FROM urls'']\<rparr>)"
    using getRandomURL_empty_fails [OF assms] by blast
  then have "getVideoData e r s =
      (http_Error (''Error fetching random URL: '' @ x) StatusInternalServerError,
       s\<lparr>trace := trace s @ [Query ''SELECT COUNT(*) FROM urls'']\<rparr>)"
    by (simp add: getVideoData_def)
  moreover have "db_error e (Query ''SELECT COUNT(*) FROM urls'') = None \<Longrightarrow>
      x = ''no URLs found in the database''"
    using x getRandomURL_empty [OF assms, of e] by simp
  ultimately show ?thesis
    using x by (auto simp: http_Error_def)
qed

theorem getVideoData_empty_store_witness:
  "urls empty_store = []
   \<and> db_error sample_env (Query ''SELECT COUNT(*) FROM urls'') = None
   \<and> fst (getRandomURL sample_env empty_store) = Inl ''no URLs found in the database''
   \<and> fst (getVideoData sample_env (bare_request ''GET'') empty_store) =
       http_Error ''Error fetching random URL: no URLs found in the database''
         StatusInternalServerError
   \<and> trace (snd (getVideoData sample_env (bare_request ''GET'') empty_store)) =
       [Query ''SELECT COUNT(*) FROM urls'']"
  using getVideoData_empty_store [of empty_store sample_env "bare_request ''GET''"]
  by (simp add: empty_store_def sample_env_def)

subsection \<open>Listing the store\<close>

lemma scan_rows_ok:
  "(\<And>i. scan_error e i = None) \<Longrightarrow>
     scan_rows e n rows acc = Inr (if rows = [] then acc else Slice ((case acc of NilSlice \<Rightarrow> [] | Slice xs \<Rightarrow> xs) @ rows))"
proof (induction rows arbitrary: n acc)
  case Nil
  then show ?case by simp
next
  case (Cons row rows)
  then show ?case by (cases acc) simp_all
qed

lemma getURLs_nonempty_store:
  assumes "db_error e (Query ''SELECT id, url FROM urls'') = None"
    and "\<And>i. scan_error e i = None" and "urls s \<noteq> []"
  shows "fst (getURLs e r s) =
           \<lparr>Status = StatusOK, Headers = [(''Content-Type'', ''application/json'')],
            Payload = Json (JArray (map marshal_URL (urls s)))\<rparr>"
  using assms by (simp add: getURLs_def db_Query_all_def scan_rows_ok)

lemma getURLs_empty_store:
  assumes "db_error e (Query ''SELECT id, url FROM urls'') = None" and "urls s = []"
  shows "fst (getURLs e r s) =
           \<lparr>Status = StatusOK, Headers = [(''Content-Type'', ''application/json'')],
            Payload = Json JNull\<rparr>"
  using assms by (simp add: getURLs_def db_Query_all_def)

text \<open>
  C3. \<^verbatim>\<open>getURLs\<close> declares \<^verbatim>\<open>var urls []URL\<close> and appends one element per row, so on a
  store with rows it answers 200 with the array of the records
  (\<open>getURLs_nonempty_store\<close>). On a store without rows the slice is still nil when it is
  encoded, and the body is \<^verbatim>\<open>null\<close>, not the empty array: here for the store left by
  a successful \<^verbatim>\<open>GET /clr\<close>.
\<close>

theorem getURLs_after_clear_is_null:
  "urls (snd (clearURLs sample_env (bare_request ''GET'') one_url_store)) = []
   \<and> fst (getURLs sample_env (bare_request ''GET'')
            (snd (clearURLs sample_env (bare_request ''GET'') one_url_store))) =
       \<lparr>Status = StatusOK, Headers = [(''Content-Type'', ''application/json'')],
        Payload = Json JNull\<rparr>
   \<and> JNull \<noteq> JArray []"
  by (simp add: getURLs_def clearURLs_def db_Query_all_def db_Exec_delete_def
      sample_env_def bare_request_def one_url_store_def)

subsection \<open>The offset of the random pick\<close>

lemma offset_of_draw: "offset_of k = k"
  by (simp add: offset_of_def)

text \<open>The panic of \<^verbatim>\<open>rand.Intn\<close> is out of reach: the draw is made after the guard on the count.\<close>

lemma getRandomURL_no_panic:
  "fst (getRandomURL e s) \<noteq> Inl ''panic: invalid argument to Intn''"
  by (simp add: getRandomURL_def db_QueryRow_count_def db_QueryRow_offset_def rand_Intn_def
      Let_def split: option.splits list.splits)

text \<open>
  C4. On a store with at least one row, whatever number stands behind \<^verbatim>\<open>rand.Intn\<close>, the
  draw is defined, the offset \<^verbatim>\<open>randomIndex-1\<close> is below the row count, and (both queries
  succeeding, the table being the same for both) \<^verbatim>\<open>getRandomURL\<close> returns the url of
  the row at that offset and leaves the table as it was.
\<close>

theorem getRandomURL_offset_in_range:
  assumes "urls s \<noteq> []"
    and "db_error e (Query ''SELECT COUNT(*) FROM urls'') = None"
    and "db_error e (Query (''SELECT url FROM urls LIMIT 1 OFFSET '' @
            itoa (int (offset_of (rand_src e mod length (urls s)))))) = None"
  shows "rand_Intn e (length (urls s)) = Some (rand_src e mod length (urls s))
       \<and> offset_of (rand_src e mod length (urls s)) < length (urls s)
       \<and> fst (getRandomURL e s) =
           Inr (URL (urls s ! offset_of (rand_src e mod length (urls s))))
       \<and> urls (snd (getRandomURL e s)) = urls s"
proof -
  let ?n = "length (urls s)"
  let ?k = "rand_src e mod ?n"
  from assms(1) have n: "0 < ?n" by simp
  then have k: "?k < ?n" by simp
  have draw: "rand_Intn e ?n = Some ?k"
    using n by (simp add: rand_Intn_def)
  from k obtain row rest where d: "drop ?k (urls s) = row # rest" and row: "row = urls s ! ?k"
    by (metis Cons_nth_drop_Suc)
  have "getRandomURL e s =
      (Inr (URL row),
       s\<lparr>trace := trace s @ [Query ''SELECT COUNT(*) FROM urls'',
          Query (''SELECT url FROM urls LIMIT 1 OFFSET '' @ itoa (int ?k))]\<rparr>)"
    using assms n draw d
    by (simp add: getRandomURL_def db_QueryRow_count_def db_QueryRow_offset_def offset_of_draw)
  with draw k row show ?thesis
    by (simp add: offset_of_draw)
qed

theorem getRandomURL_offset_in_range_witness:
  "urls three_url_store \<noteq> []
   \<and> rand_src sample_env = 7
   \<and> offset_of (rand_src sample_env mod length (urls three_url_store)) = 1
   \<and> offset_of (rand_src sample_env mod length (urls three_url_store)) < length (urls three_url_store)
   \<and> fst (getRandomURL sample_env three_url_store) = Inr ''https://vt.tiktok.com/ZS2/''"
  using getRandomURL_offset_in_range [of three_url_store sample_env]
  by (simp add: three_url_store_def sample_env_def offset_of_def)

subsection \<open>\<^verbatim>\<open>addURL\<close>: content type, request body, method\<close>

text \<open>
  C6. When the first \<^verbatim>\<open>Content-Type\<close> value is not exactly \<^verbatim>\<open>application/json\<close>,
  \<^verbatim>\<open>addURL\<close> answers 400 with \<^verbatim>\<open>Content-Type must be application/json\<close> and the
  world is untouched (no row, no statement sent), whatever the body is and whatever the
  decoder would make of it.
\<close>

theorem addURL_wrong_content_type:
  assumes "Header_Get (Header r) ''Content-Type'' \<noteq> ''application/json''"
  shows "addURL e r s =
           (http_Error ''Content-Type must be application/json'' StatusBadRequest, s)
       \<and> addURL (e\<lparr>json_value := d\<rparr>) (r\<lparr>Body := b\<rparr>) s =
           (http_Error ''Content-Type must be application/json'' StatusBadRequest, s)"
  using assms by (simp add: addURL_def)

theorem addURL_wrong_content_type_witness:
  "Header_Get (Header (plain_request ''{\"url\":\"https://vt.tiktok.com/ZS1/\"}'')) ''Content-Type''
     \<noteq> ''application/json''
   \<and> addURL sample_env (plain_request ''{\"url\":\"https://vt.tiktok.com/ZS1/\"}'') one_url_store =
       (http_Error ''Content-Type must be application/json'' StatusBadRequest, one_url_store)
   \<and> addURL sample_env (bare_request ''POST'') one_url_store =
       (http_Error ''Content-Type must be application/json'' StatusBadRequest, one_url_store)"
  using addURL_wrong_content_type [of "plain_request ''{\"url\":\"https://vt.tiktok.com/ZS1/\"}''" sample_env one_url_store]
    addURL_wrong_content_type [of "bare_request ''POST''" sample_env one_url_store]
  by (simp add: plain_request_def bare_request_def Header_Get_def)

text \<open>
  C7 as stated fails on a body that is not empty but holds white space only: the decoder
  reports \<^verbatim>\<open>EOF\<close> there too, and the answer is \<^verbatim>\<open>Empty request body\<close>, not the
  generic message.
\<close>

lemma json_Decode_empty: "json_Decode e [] = Inl ''EOF''"
  by (simp add: json_Decode_def)

theorem addURL_blank_body_counterexample:
  "Header_Get (Header (new_request ''POST'' '' '')) ''Content-Type'' = ''application/json''
   \<and> Body (new_request ''POST'' '' '') \<noteq> []
   \<and> json_Decode sample_env (Body (new_request ''POST'' '' '')) = Inl ''EOF''
   \<and> fst (addURL sample_env (new_request ''POST'' '' '') empty_store) =
       http_Error ''Empty request body'' StatusBadRequest
   \<and> fst (addURL sample_env (new_request ''POST'' '' '') empty_store) \<noteq>
       http_Error ''Invalid request payload'' StatusBadRequest"
  by (simp add: addURL_def json_Decode_def isSpace_def new_request_def json_header_def
      Header_Get_def http_Error_def)

text \<open>
  C7, amended. With the right content type: a body that is empty or holds white space
  only gets 400 \<^verbatim>\<open>Empty request body\<close>; a body with another byte on which the decoder
  fails (with an error other than \<^verbatim>\<open>io.EOF\<close>) gets 400 \<^verbatim>\<open>Invalid request payload\<close>;
  in both cases the world is untouched.
\<close>

theorem addURL_undecodable_body:
  assumes "Header_Get (Header r) ''Content-Type'' = ''application/json''"
  shows "(list_all isSpace (Body r) \<longrightarrow>
            addURL e r s = (http_Error ''Empty request body'' StatusBadRequest, s))
       \<and> (\<not> list_all isSpace (Body r) \<and> json_value e (Body r) = Inl x \<and> x \<noteq> ''EOF'' \<longrightarrow>
            addURL e r s = (http_Error ''Invalid request payload'' StatusBadRequest, s))"
  using assms by (simp add: addURL_def json_Decode_def)

theorem addURL_undecodable_body_witness:
  "Header_Get (Header (new_request ''POST'' [])) ''Content-Type'' = ''application/json''
   \<and> list_all isSpace (Body (new_request ''POST'' []))
   \<and> addURL sample_env (new_request ''POST'' []) one_url_store =
       (http_Error ''Empty request body'' StatusBadRequest, one_url_store)
   \<and> \<not> list_all isSpace (Body (new_request ''POST'' ''{\"url\":''))
   \<and> json_value sample_env (Body (new_request ''POST'' ''{\"url\":'')) = Inl ''unexpected EOF''
   \<and> addURL sample_env (new_request ''POST'' ''{\"url\":'') one_url_store =
       (http_Error ''Invalid request payload'' StatusBadRequest, one_url_store)"
  using addURL_undecodable_body [of "new_request ''POST'' []" sample_env one_url_store]
    addURL_undecodable_body [where r = "new_request ''POST'' ''{\"url\":''" and e = sample_env
      and x = "''unexpected EOF''" and s = one_url_store]
  by (simp add: new_request_def json_header_def Header_Get_def isSpace_def sample_env_def
      sample_json_value_def)

subsection \<open>\<^verbatim>\<open>clearURLs\<close>\<close>

text \<open>
  C8. \<^verbatim>\<open>clearURLs\<close> answers 405 to every method other than \<^verbatim>\<open>GET\<close> and leaves the
  world untouched; on \<^verbatim>\<open>GET\<close>, when the delete succeeds, the table is empty afterwards
  and the answer is 200 with the plain-text confirmation.
\<close>

theorem clearURLs_method_gate:
  "(Method r \<noteq> ''GET'' \<longrightarrow>
      clearURLs e r s =
        (http_Error ''Invalid method. Only GET is allowed'' StatusMethodNotAllowed, s))
   \<and> (Method r = ''GET'' \<and> db_error e (Exec ''DELETE FROM urls'' []) = None \<longrightarrow>
      fst (clearURLs e r s) =
        \<lparr>Status = StatusOK, Headers = [],
         Payload = Text (''All URLs have been removed from the database.'' @ [CHR 0x0A])\<rparr>
      \<and> urls (snd (clearURLs e r s)) = [])"
  by (simp add: clearURLs_def db_Exec_delete_def)

theorem clearURLs_method_gate_witness:
  "Method (bare_request ''POST'') \<noteq> ''GET''
   \<and> clearURLs sample_env (bare_request ''POST'') three_url_store =
       (http_Error ''Invalid method. Only GET is allowed'' StatusMethodNotAllowed, three_url_store)
   \<and> Method (bare_request ''GET'') = ''GET''
   \<and> db_error sample_env (Exec ''DELETE FROM urls'' []) = None
   \<and> Status (fst (clearURLs sample_env (bare_request ''GET'') three_url_store)) = StatusOK
   \<and> urls (snd (clearURLs sample_env (bare_request ''GET'') three_url_store)) = []"
  using clearURLs_method_gate [of "bare_request ''POST''" sample_env three_url_store]
    clearURLs_method_gate [of "bare_request ''GET''" sample_env three_url_store]
  by (simp add: bare_request_def sample_env_def)

subsection \<open>A remote answer with a non-zero code\<close>

text \<open>
  C9. When the remote answer decodes to a \<^verbatim>\<open>VideoInfo\<close> whose \<^verbatim>\<open>Code\<close> is not zero,
  \<^verbatim>\<open>getVideoInfo\<close> returns the error \<^verbatim>\<open>API error: \<close> followed by the remote
  \<^verbatim>\<open>Msg\<close> as it is, and no \<^verbatim>\<open>VideoInfo\<close>; \<^verbatim>\<open>getVideoData\<close> then answers 500
  with that error after the prefix \<^verbatim>\<open>Error fetching video: \<close>.
\<close>

theorem getVideoInfo_api_error:
  assumes "http_NewRequest e (''https://tikwm.com/api?url='' @ url) = None"
    and "client_Do e (''https://tikwm.com/api?url='' @ url) = Decoded v"
    and "vi_Code v \<noteq> 0"
  shows "fst (getVideoInfo e url t) = Inl (''API error: '' @ vi_Msg v)
       \<and> (getRandomURL e s = (Inr url, t) \<longrightarrow>
            fst (getVideoData e r s) =
              http_Error (''Error fetching video: '' @ ''API error: '' @ vi_Msg v)
                StatusInternalServerError)"
  using assms by (simp add: getVideoInfo_def getVideoData_def)

lemma failing_pick:
  "getRandomURL failing_env one_url_store =
     (Inr ''https://vt.tiktok.com/ZS1/'',
      one_url_store\<lparr>trace := [Query ''SELECT COUNT(*) FROM urls'',
                               Query ''SELECT url FROM urls LIMIT 1 OFFSET 0'']\<rparr>)"
  by (simp add: getRandomURL_def db_QueryRow_count_def db_QueryRow_offset_def rand_Intn_def
      offset_of_def failing_env_def sample_env_def one_url_store_def itoa_def dec.simps digit_def)

theorem getVideoInfo_api_error_witness:
  "http_NewRequest failing_env (''https://tikwm.com/api?url='' @ ''https://vt.tiktok.com/ZS1/'') = None
   \<and> client_Do failing_env (''https://tikwm.com/api?url='' @ ''https://vt.tiktok.com/ZS1/'') =
       Decoded failing_info
   \<and> vi_Code failing_info = - 1
   \<and> fst (getRandomURL failing_env one_url_store) = Inr ''https://vt.tiktok.com/ZS1/''
   \<and> fst (getVideoInfo failing_env ''https://vt.tiktok.com/ZS1/''
             (snd (getRandomURL failing_env one_url_store))) =
       Inl ''API error: Url parsing is failed! Please check url.''
   \<and> fst (getVideoData failing_env (bare_request ''GET'') one_url_store) =
       http_Error ''Error fetching video: API error: Url parsing is failed! Please check url.''
         StatusInternalServerError"
  using getVideoInfo_api_error [where e = failing_env and url = "''https://vt.tiktok.com/ZS1/''"
      and v = failing_info and s = one_url_store and r = "bare_request ''GET''"
      and t = "one_url_store\<lparr>trace := [Query ''SELECT COUNT(*) FROM urls'',
                               Query ''SELECT url FROM urls LIMIT 1 OFFSET 0'']\<rparr>"]
    failing_pick
  by (simp add: failing_env_def sample_env_def failing_info_def)

subsection \<open>\<^verbatim>\<open>addURL\<close> does not look at the method\<close>

text \<open>
  C10. The result of \<^verbatim>\<open>addURL\<close> is the same under every method. With the right content
  type, a body that decodes and an insert that succeeds (no database error, a fresh
  identifier), it answers 201 with the stored record and the table gains that row.
\<close>

theorem addURL_any_method:
  "addURL e (r\<lparr>Method := m\<rparr>) s = addURL e r s
   \<and> (Header_Get (Header r) ''Content-Type'' = ''application/json''
      \<and> json_Decode e (Body r) = Inr decoded
      \<and> db_error e (Exec insert_sql [uuid_New e 0, URL decoded]) = None
      \<and> uuid_New e 0 \<notin> set (map ID (urls s)) \<longrightarrow>
        fst (addURL e (r\<lparr>Method := m\<rparr>) s) =
          \<lparr>Status = StatusCreated, Headers = [],
           Payload = Json (marshal_URL \<lparr>ID = uuid_New e 0, URL = URL decoded\<rparr>)\<rparr>
      \<and> urls (snd (addURL e (r\<lparr>Method := m\<rparr>) s)) =
          urls s @ [\<lparr>ID = uuid_New e 0, URL = URL decoded\<rparr>])"
  by (cases decoded) (simp add: addURL_def db_Exec_insert_def Let_def)

theorem addURL_any_method_witness:
  "Header_Get (Header (new_request ''POST'' ''{\"url\":\"https://vt.tiktok.com/ZS1/\"}'')) ''Content-Type'' =
     ''application/json''
   \<and> json_Decode sample_env ''{\"url\":\"https://vt.tiktok.com/ZS1/\"}'' =
       Inr \<lparr>ID = [], URL = ''https://vt.tiktok.com/ZS1/''\<rparr>
   \<and> uuid_New sample_env 0 = ''7c9e6679-7425-40de-944b-e07fc1f90ae7''
   \<and> addURL sample_env (new_request ''DELETE'' ''{\"url\":\"https://vt.tiktok.com/ZS1/\"}'') empty_store =
       addURL sample_env (new_request ''POST'' ''{\"url\":\"https://vt.tiktok.com/ZS1/\"}'') empty_store
   \<and> fst (addURL sample_env (new_request ''DELETE'' ''{\"url\":\"https://vt.tiktok.com/ZS1/\"}'') empty_store) =
       \<lparr>Status = StatusCreated, Headers = [],
        Payload = Json (JObject [(''id'', JString ''7c9e6679-7425-40de-944b-e07fc1f90ae7''),
                                 (''url'', JString ''https://vt.tiktok.com/ZS1/'')])\<rparr>
   \<and> urls (snd (addURL sample_env (new_request ''DELETE'' ''{\"url\":\"https://vt.tiktok.com/ZS1/\"}'') empty_store)) =
       [\<lparr>ID = ''7c9e6679-7425-40de-944b-e07fc1f90ae7'', URL = ''https://vt.tiktok.com/ZS1/''\<rparr>]"
  using addURL_any_method [where e = sample_env
      and r = "new_request ''POST'' ''{\"url\":\"https://vt.tiktok.com/ZS1/\"}''"
      and m = "''DELETE''" and s = empty_store
      and decoded = "\<lparr>ID = [], URL = ''https://vt.tiktok.com/ZS1/''\<rparr>"]
  by (simp add: new_request_def json_header_def Header_Get_def json_Decode_def isSpace_def
      sample_env_def sample_json_value_def sample_uuids_def empty_store_def marshal_URL_def
      addURL_def db_Exec_insert_def insert_sql_def)

subsection \<open>What the stored urls can be\<close>

text \<open>
  No handler changes the url of a row; rows are added by \<^verbatim>\<open>addURL\<close> and
  \<^verbatim>\<open>fetchAndInsertURLs\<close> only, with the url as it was offered.
\<close>

lemma db_Exec_insert_urls:
  "set (map URL (urls (snd (db_Exec_insert e i u s)))) \<subseteq> insert u (set (map URL (urls s)))"
  by (auto simp: db_Exec_insert_def Let_def split: option.splits)

lemma insert_each_urls:
  "set (map URL (urls (snd (insert_each e i us s)))) \<subseteq> set (map URL (urls s)) \<union> set us"
proof (induction us arbitrary: i s)
  case Nil
  then show ?case by simp
next
  case (Cons u us)
  obtain res s1 where step: "db_Exec_insert e (uuid_New e i) u s = (res, s1)"
    by (cases "db_Exec_insert e (uuid_New e i) u s")
  have s1: "set (map URL (urls s1)) \<subseteq> insert u (set (map URL (urls s)))"
    using db_Exec_insert_urls [of e "uuid_New e i" u s] step by simp
  have cons: "set (u # us) = insert u (set us)" by simp
  show ?case
  proof (cases res)
    case None
    have "set (map URL (urls (snd (insert_each e (Suc i) us s1)))) \<subseteq> set (map URL (urls s1)) \<union> set us"
      by (rule Cons.IH)
    with s1 cons
    have "set (map URL (urls (snd (insert_each e (Suc i) us s1)))) \<subseteq>
            set (map URL (urls s)) \<union> set (u # us)"
      by blast
    moreover have "snd (insert_each e i (u # us) s) = snd (insert_each e (Suc i) us s1)"
      using step None by simp
    ultimately show ?thesis by (simp only:)
  next
    case (Some x)
    with step have "snd (insert_each e i (u # us) s) = s1" by simp
    moreover from s1 cons
    have "set (map URL (urls s1)) \<subseteq> set (map URL (urls s)) \<union> set (u # us)"
      by blast
    ultimately show ?thesis by (simp only:)
  qed
qed

lemma addURL_urls:
  "set (map URL (urls (snd (addURL e r s)))) \<subseteq>
     set (map URL (urls s)) \<union> set (offered (Route_new, e, r))"
proof (cases "Header_Get (Header r) ''Content-Type'' \<noteq> ''application/json''")
  case True
  then show ?thesis by (simp add: addURL_def)
next
  case False
  show ?thesis
  proof (cases "json_Decode e (Body r)")
    case (Inl x)
    with False show ?thesis by (simp add: addURL_def)
  next
    case (Inr decoded)
    obtain res s1 where step: "db_Exec_insert e (uuid_New e 0) (URL decoded) s = (res, s1)"
      by (cases "db_Exec_insert e (uuid_New e 0) (URL decoded) s")
    have "set (map URL (urls s1)) \<subseteq> insert (URL decoded) (set (map URL (urls s)))"
      using db_Exec_insert_urls [of e "uuid_New e 0" "URL decoded" s] step by simp
    with False Inr step show ?thesis
      by (cases res) (auto simp: addURL_def Let_def)
  qed
qed

lemma getURLs_urls: "urls (snd (getURLs e r s)) = urls s"
  by (simp add: getURLs_def db_Query_all_def Let_def split: option.splits sum.splits)

lemma clearURLs_urls: "set (urls (snd (clearURLs e r s))) \<subseteq> set (urls s)"
  by (simp add: clearURLs_def db_Exec_delete_def Let_def split: option.splits)

lemma getRandomURL_urls: "urls (snd (getRandomURL e s)) = urls s"
  by (simp add: getRandomURL_def db_QueryRow_count_def db_QueryRow_offset_def Let_def
      split: option.splits list.splits)

lemma getVideoInfo_urls: "urls (snd (getVideoInfo e u s)) = urls s"
  by (simp add: getVideoInfo_def Let_def split: option.splits reply.splits)

lemma getVideoData_urls: "urls (snd (getVideoData e r s)) = urls s"
proof -
  obtain a s1 where pick: "getRandomURL e s = (a, s1)"
    by (cases "getRandomURL e s")
  then have s1: "urls s1 = urls s"
    using getRandomURL_urls [of e s] by simp
  show ?thesis
  proof (cases a)
    case (Inl x)
    with pick s1 show ?thesis by (simp add: getVideoData_def)
  next
    case (Inr u)
    obtain b s2 where fetch: "getVideoInfo e u s1 = (b, s2)"
      by (cases "getVideoInfo e u s1")
    then have "urls s2 = urls s1"
      using getVideoInfo_urls [of e u s1] by simp
    with pick s1 Inr fetch show ?thesis
      by (cases b) (simp_all add: getVideoData_def)
  qed
qed

lemma fetchAndInsertURLs_urls:
  "set (map URL (urls (snd (fetchAndInsertURLs e r s)))) \<subseteq>
     set (map URL (urls s)) \<union> set (offered (Route_fetch, e, r))"
proof (cases "list_Get e")
  case (Listed us)
  let ?s0 = "s\<lparr>trace := trace s @ [HttpGet list_endpoint []]\<rparr>"
  obtain res s1 where run: "insert_each e 0 us ?s0 = (res, s1)"
    by (cases "insert_each e 0 us ?s0")
  have "set (map URL (urls s1)) \<subseteq> set (map URL (urls ?s0)) \<union> set us"
    using insert_each_urls [of e 0 us ?s0] run by simp
  with Listed run show ?thesis
    by (cases res) (auto simp: fetchAndInsertURLs_def Let_def)
qed (simp_all add: fetchAndInsertURLs_def Let_def)

lemma dispatch_urls:
  "set (map URL (urls (snd (dispatch p e r s)))) \<subseteq> set (map URL (urls s)) \<union> set (offered (p, e, r))"
proof (cases p)
  case Route_new
  then show ?thesis using addURL_urls [of e r s] by simp
next
  case Route_list
  then show ?thesis by (simp add: getURLs_urls)
next
  case Route_clr
  then show ?thesis using clearURLs_urls [of e r s] by auto
next
  case Route_get
  then show ?thesis by (simp add: getVideoData_urls)
next
  case Route_fetch
  then show ?thesis using fetchAndInsertURLs_urls [of e r s] by simp
qed

lemma serve_urls:
  "set (map URL (urls (serve rs s))) \<subseteq> set (map URL (urls s)) \<union> set (concat (map offered rs))"
proof (induction rs arbitrary: s)
  case Nil
  then show ?case by simp
next
  case (Cons req rs)
  obtain p e r where req: "req = (p, e, r)" by (cases req)
  have step: "serve (req # rs) s = serve rs (snd (dispatch p e r s))"
    using req by simp
  have offers: "set (concat (map offered (req # rs))) =
      set (offered (p, e, r)) \<union> set (concat (map offered rs))"
    using req by simp
  have "set (map URL (urls (serve rs (snd (dispatch p e r s))))) \<subseteq>
          set (map URL (urls (snd (dispatch p e r s)))) \<union> set (concat (map offered rs))"
    by (rule Cons.IH)
  with dispatch_urls [of p e r s]
  have "set (map URL (urls (serve rs (snd (dispatch p e r s))))) \<subseteq>
          set (map URL (urls s)) \<union> (set (offered (p, e, r)) \<union> set (concat (map offered rs)))"
    by blast
  then show ?case by (simp only: step offers)
qed

text \<open>
  C5 as stated fails: nothing checks the decoded url, so one \<^verbatim>\<open>POST /new\<close> whose body
  decodes to an empty url is answered 201 and leaves a row whose url is the empty string.
\<close>

theorem serve_empty_url_counterexample:
  "Status (fst (addURL sample_env (new_request ''POST'' ''{\"url\":\"\"}'') empty_store)) = StatusCreated
   \<and> map URL (urls (serve [(Route_new, sample_env, new_request ''POST'' ''{\"url\":\"\"}'')] empty_store)) = [[]]"
  by (simp add: addURL_def db_Exec_insert_def json_Decode_def isSpace_def new_request_def
      json_header_def Header_Get_def sample_env_def sample_json_value_def empty_store_def
      Let_def)

text \<open>
  C5, amended. Over every sequence of requests to the five routes: when the rows of the
  store hold non-empty urls and every url offered by a \<^verbatim>\<open>/new\<close> body or a \<^verbatim>\<open>/fetch\<close>
  list is non-empty, every row holds a non-empty url afterwards.
\<close>

theorem serve_keeps_urls_nonempty:
  assumes "\<forall>row \<in> set (urls s). URL row \<noteq> []"
    and "\<forall>u \<in> set (concat (map offered rs)). u \<noteq> []"
  shows "\<forall>row \<in> set (urls (serve rs s)). URL row \<noteq> []"
proof
  fix row
  assume "row \<in> set (urls (serve rs s))"
  then have "URL row \<in> set (map URL (urls (serve rs s)))" by simp
  with serve_urls [of rs s]
  have "URL row \<in> set (map URL (urls s)) \<union> set (concat (map offered rs))" by blast
  with assms show "URL row \<noteq> []" by auto
qed

theorem serve_keeps_urls_nonempty_witness:
  "urls empty_store = []
   \<and> concat (map offered two_requests) = [''https://vt.tiktok.com/ZS1/'']
   \<and> map URL (urls (serve two_requests empty_store)) = [''https://vt.tiktok.com/ZS1/'']
   \<and> list_all (\<lambda>row. URL row \<noteq> []) (urls (serve two_requests empty_store))"
proof -
  have offers: "concat (map offered two_requests) = [''https://vt.tiktok.com/ZS1/'']"
    by (simp add: two_requests_def new_request_def json_header_def Header_Get_def
        json_Decode_def isSpace_def sample_env_def sample_json_value_def)
  have stored: "map URL (urls (serve two_requests empty_store)) = [''https://vt.tiktok.com/ZS1/'']"
    by (simp add: two_requests_def addURL_def getURLs_def db_Exec_insert_def db_Query_all_def
        json_Decode_def isSpace_def new_request_def json_header_def Header_Get_def
        sample_env_def sample_json_value_def empty_store_def Let_def)
  have "\<forall>row \<in> set (urls (serve two_requests empty_store)). URL row \<noteq> []"
  proof (rule serve_keeps_urls_nonempty)
    show "\<forall>row \<in> set (urls empty_store). URL row \<noteq> []"
      by (simp add: empty_store_def)
    show "\<forall>u \<in> set (concat (map offered two_requests)). u \<noteq> []"
      by (simp add: offers)
  qed
  then have "list_all (\<lambda>row. URL row \<noteq> []) (urls (serve two_requests empty_store))"
    by (simp only: list_all_iff)
  moreover have "urls empty_store = []"
    by (simp add: empty_store_def)
  ultimately show ?thesis
    using offers stored by blast
qed

end
